theory Spec2Isabelle
  imports Main
begin

section \<open>Mergington High School activities API (src/app.py)\<close>

subsection \<open>Data model\<close>

text \<open>
  Each value of the \<open>activities\<close> dictionary is itself a dictionary with the four fixed keys
  \<open>description\<close>, \<open>schedule\<close>, \<open>max_participants\<close> and \<open>participants\<close>; no code adds or
  removes a key, so it is a record. Python's \<open>int\<close> is unbounded: \<open>int\<close>.
\<close>

record activity =
  description :: string
  schedule :: string
  max_participants :: int
  participants :: "string list"

text \<open>
  The module-level dictionary \<open>activities\<close> maps an activity name to its record. A Python
  dictionary keeps its keys in insertion order, so the store is an association list; a
  key is looked up with \<open>map_of\<close> (first entry with that key) and \<open>name in activities\<close>
  is \<open>map_of store name \<noteq> None\<close>.
\<close>

type_synonym store = "(string \<times> activity) list"

text \<open>The seed data, lines 31-50.\<close>

definition activities :: store where
  "activities =
    [(''Chess Club'',
        \<lparr>description = ''Learn strategies and compete in chess tournaments'',
         schedule = ''Fridays, 3:30 PM - 5:00 PM'',
         max_participants = 12,
         participants = [''michael@mergington.edu'', ''daniel@mergington.edu'']\<rparr>),
     (''Programming Class'',
        \<lparr>description = ''Learn programming fundamentals and build software projects'',
         schedule = ''Tuesdays and Thursdays, 3:30 PM - 4:30 PM'',
         max_participants = 20,
         participants = [''emma@mergington.edu'', ''sophia@mergington.edu'']\<rparr>),
     (''Gym Class'',
        \<lparr>description = ''Physical education and sports activities'',
         schedule = ''Mondays, Wednesdays, Fridays, 2:00 PM - 3:00 PM'',
         max_participants = 30,
         participants = [''john@mergington.edu'', ''olivia@mergington.edu'']\<rparr>)]"

subsection \<open>Errors and responses\<close>

text \<open>\<open>raise HTTPException(status_code=..., detail=...)\<close> is a value of this type.\<close>

datatype http_exception = HTTPException (status_code: nat) (detail: string)

text \<open>
  A JSON object whose values are strings, as returned by \<open>signup_for_activity\<close>
  (\<open>{"message": ...}\<close>) and as the framework renders an \<open>HTTPException\<close>
  (\<open>{"detail": ...}\<close>).
\<close>

type_synonym json_object = "(string \<times> string) list"

record http_response =
  status :: nat
  body :: json_object

text \<open>
  What the web framework does with the outcome of a route handler registered by
  \<open>@app.post(path)\<close> with no \<open>status_code\<close> argument: a returned dictionary is sent as the
  JSON body with status 200; a raised \<open>HTTPException\<close> is sent with its own status code
  and the body \<open>{"detail": detail}\<close>.
\<close>

fun respond :: "http_exception + json_object \<Rightarrow> http_response" where
  "respond (Inr d) = \<lparr>status = 200, body = d\<rparr>"
| "respond (Inl e) = \<lparr>status = status_code e, body = [(''detail'', detail e)]\<rparr>"

subsection \<open>Operations\<close>

text \<open>\<open>get_activities\<close> (lines 59-70) returns the dictionary and leaves it as it is:
  the pair is the returned value and the store after the call.\<close>

definition get_activities :: "store \<Rightarrow> store \<times> store" where
  "get_activities store = (store, store)"

text \<open>
  \<open>activity = activities[activity_name]; activity["participants"].append(email)\<close>:
  the list of the entry found under \<open>activity_name\<close> is extended in place, all other
  entries and fields stay.
\<close>

fun append_participant :: "string \<Rightarrow> string \<Rightarrow> store \<Rightarrow> store" where
  "append_participant activity_name email [] = []"
| "append_participant activity_name email ((name, a) # rest) =
     (if name = activity_name
      then (name, a\<lparr>participants := participants a @ [email]\<rparr>) # rest
      else (name, a) # append_participant activity_name email rest)"

text \<open>
  \<open>signup_for_activity\<close> (lines 73-102). The result is the raised exception (\<open>Inl\<close>) or
  the returned dictionary (\<open>Inr\<close>), paired with the store after the call.
\<close>

definition signup_for_activity ::
  "store \<Rightarrow> string \<Rightarrow> string \<Rightarrow> (http_exception + json_object) \<times> store" where
  "signup_for_activity store activity_name email =
     (case map_of store activity_name of
        None \<Rightarrow> (Inl (HTTPException 404 ''Activity not found''), store)
      | Some activity \<Rightarrow>
          if email \<in> set (participants activity)
          then (Inl (HTTPException 400 ''Student is already signed up''), store)
          else (Inr [(''message'', ''Signed up '' @ email @ '' for '' @ activity_name)],
                append_participant activity_name email store))"

text \<open>A client call is one of the two requests; \<open>handle\<close> gives the store after it.\<close>

datatype request = GetActivities | Signup string string

fun handle :: "store \<Rightarrow> request \<Rightarrow> store" where
  "handle store GetActivities = snd (get_activities store)"
| "handle store (Signup activity_name email) =
     snd (signup_for_activity store activity_name email)"

definition run :: "store \<Rightarrow> request list \<Rightarrow> store" where
  "run store reqs = foldl handle store reqs"

text \<open>No activity of the store lists an email twice.\<close>

definition no_duplicates :: "store \<Rightarrow> bool" where
  "no_duplicates store = list_all (\<lambda>(name, a). distinct (participants a)) store"

section \<open>Properties\<close>

subsection \<open>Lookup after an append\<close>

lemma map_of_append_participant_same:
  "map_of store n = Some a \<Longrightarrow>
   map_of (append_participant n e store) n = Some (a\<lparr>participants := participants a @ [e]\<rparr>)"
  by (induction store) (auto split: if_splits)

lemma map_of_append_participant_other:
  "m \<noteq> n \<Longrightarrow> map_of (append_participant n e store) m = map_of store m"
  by (induction store) auto

lemma keys_append_participant:
  "map fst (append_participant n e store) = map fst store"
  by (induction store) auto

lemma length_append_participant:
  "length (append_participant n e store) = length store"
  by (induction store) auto

lemma no_duplicates_append_participant:
  "no_duplicates store \<Longrightarrow> map_of store n = Some a \<Longrightarrow> e \<notin> set (participants a) \<Longrightarrow>
   no_duplicates (append_participant n e store)"
  by (induction store) (auto simp: no_duplicates_def split: if_splits)

lemma no_duplicates_signup:
  "no_duplicates store \<Longrightarrow> no_duplicates (snd (signup_for_activity store n e))"
  by (auto simp: signup_for_activity_def no_duplicates_append_participant
           split: option.splits)

lemma no_duplicates_handle:
  "no_duplicates store \<Longrightarrow> no_duplicates (handle store r)"
  by (cases r) (simp_all add: get_activities_def no_duplicates_signup)

lemma no_duplicates_run:
  "no_duplicates store \<Longrightarrow> no_duplicates (run store reqs)"
  unfolding run_def
  by (induction reqs arbitrary: store) (simp_all add: no_duplicates_handle)

lemma no_duplicates_activities: "no_duplicates activities"
  by (simp add: no_duplicates_def activities_def)

lemma map_of_activities_chess:
  "map_of activities ''Chess Club'' =
     Some \<lparr>description = ''Learn strategies and compete in chess tournaments'',
           schedule = ''Fridays, 3:30 PM - 5:00 PM'',
           max_participants = 12,
           participants = [''michael@mergington.edu'', ''daniel@mergington.edu'']\<rparr>"
  by (simp add: activities_def)

lemma map_of_activities_gym:
  "map_of activities ''Gym Class'' =
     Some \<lparr>description = ''Physical education and sports activities'',
           schedule = ''Mondays, Wednesdays, Fridays, 2:00 PM - 3:00 PM'',
           max_participants = 30,
           participants = [''john@mergington.edu'', ''olivia@mergington.edu'']\<rparr>"
  by (simp add: activities_def)

subsection \<open>Signup\<close>

text \<open>
  C1. For every store, every activity name that is a key of the store and every email
  that is not in that activity's participants, the signup answers HTTP 200 with the
  body \<open>{"message": "Signed up {email} for {activity_name}"}\<close>, and in the new store that
  activity's participants are the old ones, in their order, followed by the email.
\<close>

theorem signup_success:
  assumes "map_of store activity_name = Some a"
      and "email \<notin> set (participants a)"
  shows "respond (fst (signup_for_activity store activity_name email)) =
           \<lparr>status = 200,
            body = [(''message'', ''Signed up '' @ email @ '' for '' @ activity_name)]\<rparr>
         \<and> map_of (snd (signup_for_activity store activity_name email)) activity_name
             = Some (a\<lparr>participants := participants a @ [email]\<rparr>)"
  using assms
  by (simp add: signup_for_activity_def map_of_append_participant_same)

theorem signup_success_witness:
  "respond (fst (signup_for_activity activities ''Chess Club'' ''new_student@mergington.edu''))
     = \<lparr>status = 200,
        body = [(''message'', ''Signed up new_student@mergington.edu for Chess Club'')]\<rparr>
   \<and> map_of (snd (signup_for_activity activities ''Chess Club''
                     ''new_student@mergington.edu'')) ''Chess Club''
     = Some \<lparr>description = ''Learn strategies and compete in chess tournaments'',
             schedule = ''Fridays, 3:30 PM - 5:00 PM'',
             max_participants = 12,
             participants = [''michael@mergington.edu'', ''daniel@mergington.edu'',
                             ''new_student@mergington.edu'']\<rparr>"
  using signup_success [OF map_of_activities_chess, of "''new_student@mergington.edu''"]
  by simp

text \<open>
  C2. For every store and every activity name that is a key of the store, the signup
  raises the 400 error "Student is already signed up" exactly when the email is already
  in that activity's participants; in that case the response is HTTP 400 with body
  \<open>{"detail": "Student is already signed up"}\<close> and the store is unchanged.
\<close>

theorem signup_duplicate:
  assumes "map_of store activity_name = Some a"
  shows "(fst (signup_for_activity store activity_name email)
            = Inl (HTTPException 400 ''Student is already signed up''))
           = (email \<in> set (participants a))
         \<and> (email \<in> set (participants a) \<longrightarrow>
              respond (fst (signup_for_activity store activity_name email)) =
                \<lparr>status = 400, body = [(''detail'', ''Student is already signed up'')]\<rparr>
              \<and> snd (signup_for_activity store activity_name email) = store)"
  using assms by (simp add: signup_for_activity_def)

theorem signup_duplicate_witness:
  "fst (signup_for_activity activities ''Chess Club'' ''daniel@mergington.edu'')
     = Inl (HTTPException 400 ''Student is already signed up'')
   \<and> respond (fst (signup_for_activity activities ''Chess Club'' ''daniel@mergington.edu''))
     = \<lparr>status = 400, body = [(''detail'', ''Student is already signed up'')]\<rparr>
   \<and> snd (signup_for_activity activities ''Chess Club'' ''daniel@mergington.edu'')
     = activities"
  using signup_duplicate [OF map_of_activities_chess, of "''daniel@mergington.edu''"]
  by simp

text \<open>
  C3. For every store, every email and every activity name that is not a key of the
  store, the signup answers HTTP 404 with body \<open>{"detail": "Activity not found"}\<close> and
  the store after the call is the store before it.
\<close>

theorem signup_not_found:
  assumes "activity_name \<notin> set (map fst store)"
  shows "respond (fst (signup_for_activity store activity_name email)) =
           \<lparr>status = 404, body = [(''detail'', ''Activity not found'')]\<rparr>
         \<and> snd (signup_for_activity store activity_name email) = store"
proof -
  from assms have "map_of store activity_name = None"
    by (simp add: map_of_eq_None_iff)
  then show ?thesis
    by (simp add: signup_for_activity_def)
qed

theorem signup_not_found_witness:
  "''Nonexistent Club'' \<notin> set (map fst activities)
   \<and> respond (fst (signup_for_activity activities ''Nonexistent Club''
                      ''student@mergington.edu''))
     = \<lparr>status = 404, body = [(''detail'', ''Activity not found'')]\<rparr>
   \<and> snd (signup_for_activity activities ''Nonexistent Club'' ''student@mergington.edu'')
     = activities"
proof -
  have h: "''Nonexistent Club'' \<notin> set (map fst activities)"
    by (simp add: activities_def)
  show ?thesis
    using h signup_not_found [OF h, of "''student@mergington.edu''"] by simp
qed

text \<open>
  C4. Every store reached from the seed data by a finite sequence of signup and
  get-activities calls has no duplicate email in any activity's participants, and a
  single signup call keeps a store without duplicates free of duplicates.
\<close>

theorem no_duplicates_reachable:
  "no_duplicates (run activities reqs)
   \<and> (no_duplicates store \<longrightarrow>
        no_duplicates (snd (signup_for_activity store activity_name email)))"
  by (simp add: no_duplicates_run no_duplicates_activities no_duplicates_signup)

theorem no_duplicates_reachable_witness:
  "no_duplicates (run activities
      [Signup ''Chess Club'' ''duplicate@mergington.edu'', GetActivities,
       Signup ''Chess Club'' ''duplicate@mergington.edu'',
       Signup ''Gym Class'' ''michael@mergington.edu''])
   \<and> no_duplicates activities
   \<and> no_duplicates (snd (signup_for_activity activities ''Gym Class''
                            ''john@mergington.edu''))"
  using no_duplicates_reachable
          [of "[Signup ''Chess Club'' ''duplicate@mergington.edu'', GetActivities,
                Signup ''Chess Club'' ''duplicate@mergington.edu'',
                Signup ''Gym Class'' ''michael@mergington.edu'']"
              activities "''Gym Class''" "''john@mergington.edu''"]
  by (simp add: no_duplicates_def activities_def)

text \<open>
  C5. The signup makes no capacity check: for every store, every activity name in the
  store and every email not among its participants, the signup answers HTTP 200 and
  appends the email also when the activity already has \<open>max_participants\<close> participants
  or more.
\<close>

theorem signup_no_capacity_check:
  assumes "map_of store activity_name = Some a"
      and "email \<notin> set (participants a)"
      and "max_participants a \<le> int (length (participants a))"
  shows "status (respond (fst (signup_for_activity store activity_name email))) = 200
         \<and> (\<exists>a'. map_of (snd (signup_for_activity store activity_name email)) activity_name
                    = Some a'
                \<and> max_participants a' < int (length (participants a')))"
  using assms
  by (simp add: signup_for_activity_def map_of_append_participant_same)

theorem signup_no_capacity_check_witness:
  "status (respond (fst (signup_for_activity
      [(''Duo'', \<lparr>description = ''d'', schedule = ''s'', max_participants = 2,
                  participants = [''a@x'', ''b@x'']\<rparr>)] ''Duo'' ''c@x''))) = 200
   \<and> map_of (snd (signup_for_activity
      [(''Duo'', \<lparr>description = ''d'', schedule = ''s'', max_participants = 2,
                  participants = [''a@x'', ''b@x'']\<rparr>)] ''Duo'' ''c@x'')) ''Duo''
     = Some \<lparr>description = ''d'', schedule = ''s'', max_participants = 2,
             participants = [''a@x'', ''b@x'', ''c@x'']\<rparr>"
  using signup_no_capacity_check
          [of "[(''Duo'', \<lparr>description = ''d'', schedule = ''s'', max_participants = 2,
                            participants = [''a@x'', ''b@x'']\<rparr>)]" "''Duo''"
              "\<lparr>description = ''d'', schedule = ''s'', max_participants = 2,
                participants = [''a@x'', ''b@x'']\<rparr>" "''c@x''"]
  by (simp add: signup_for_activity_def)

text \<open>
  C8. A successful signup for activity \<open>A\<close> changes only the participants of \<open>A\<close>: every
  other activity is looked up as before, the keys of the store and their order are the
  same, and the description, schedule and \<open>max_participants\<close> of \<open>A\<close> are unchanged.
\<close>

theorem signup_frame:
  assumes "map_of store activity_name = Some a"
      and "email \<notin> set (participants a)"
  shows "(\<forall>other. other \<noteq> activity_name \<longrightarrow>
            map_of (snd (signup_for_activity store activity_name email)) other
              = map_of store other)
         \<and> map fst (snd (signup_for_activity store activity_name email)) = map fst store
         \<and> (\<exists>a'. map_of (snd (signup_for_activity store activity_name email)) activity_name
                    = Some a'
                \<and> description a' = description a
                \<and> schedule a' = schedule a
                \<and> max_participants a' = max_participants a)"
  using assms
  by (simp add: signup_for_activity_def map_of_append_participant_same
        map_of_append_participant_other keys_append_participant)

theorem signup_frame_witness:
  "map_of (snd (signup_for_activity activities ''Chess Club'' ''alice@mergington.edu''))
      ''Gym Class''
     = Some \<lparr>description = ''Physical education and sports activities'',
             schedule = ''Mondays, Wednesdays, Fridays, 2:00 PM - 3:00 PM'',
             max_participants = 30,
             participants = [''john@mergington.edu'', ''olivia@mergington.edu'']\<rparr>
   \<and> map fst (snd (signup_for_activity activities ''Chess Club'' ''alice@mergington.edu''))
     = [''Chess Club'', ''Programming Class'', ''Gym Class'']
   \<and> (\<exists>a'. map_of (snd (signup_for_activity activities ''Chess Club''
                          ''alice@mergington.edu'')) ''Chess Club'' = Some a'
          \<and> description a' = ''Learn strategies and compete in chess tournaments''
          \<and> schedule a' = ''Fridays, 3:30 PM - 5:00 PM''
          \<and> max_participants a' = 12)"
proof -
  have keys: "map fst activities = [''Chess Club'', ''Programming Class'', ''Gym Class'']"
    by (simp add: activities_def)
  have other: "''Gym Class'' \<noteq> ''Chess Club''"
    by simp
  have new: "''alice@mergington.edu''
               \<notin> set [''michael@mergington.edu'', ''daniel@mergington.edu'']"
    by simp
  show ?thesis
    using signup_frame [OF map_of_activities_chess, of "''alice@mergington.edu''"]
      new other keys map_of_activities_gym
    by (simp del: map_of_eq_Some_iff)
qed

text \<open>
  C9. The duplicate check looks only at the named activity: the outcome of a signup is
  the same in two stores that agree on that activity; an email enrolled in one activity
  and not in another one is signed up for the other with HTTP 200; and on the seed data
  "michael@mergington.edu" (enrolled in "Chess Club") is signed up for "Gym Class".
\<close>

theorem signup_uniqueness_per_activity:
  "(map_of store1 activity_name = map_of store2 activity_name \<longrightarrow>
      fst (signup_for_activity store1 activity_name email)
        = fst (signup_for_activity store2 activity_name email))
   \<and> (map_of store activity_name = Some a \<and> map_of store other = Some b
        \<and> other \<noteq> activity_name
        \<and> email \<in> set (participants b) \<and> email \<notin> set (participants a) \<longrightarrow>
        status (respond (fst (signup_for_activity store activity_name email))) = 200
        \<and> map_of (snd (signup_for_activity store activity_name email)) activity_name
            = Some (a\<lparr>participants := participants a @ [email]\<rparr>)
        \<and> map_of (snd (signup_for_activity store activity_name email)) other = Some b)
   \<and> status (respond (fst (signup_for_activity activities ''Gym Class''
                            ''michael@mergington.edu''))) = 200"
proof (intro conjI impI)
  assume "map_of store1 activity_name = map_of store2 activity_name"
  then show "fst (signup_for_activity store1 activity_name email)
               = fst (signup_for_activity store2 activity_name email)"
    by (simp add: signup_for_activity_def split: option.splits)
next
  assume h: "map_of store activity_name = Some a \<and> map_of store other = Some b
        \<and> other \<noteq> activity_name
        \<and> email \<in> set (participants b) \<and> email \<notin> set (participants a)"
  then show "status (respond (fst (signup_for_activity store activity_name email))) = 200"
    by (simp add: signup_for_activity_def)
  from h show "map_of (snd (signup_for_activity store activity_name email)) activity_name
            = Some (a\<lparr>participants := participants a @ [email]\<rparr>)"
    by (simp add: signup_for_activity_def map_of_append_participant_same)
  from h show "map_of (snd (signup_for_activity store activity_name email)) other = Some b"
    by (simp add: signup_for_activity_def map_of_append_participant_other)
next
  show "status (respond (fst (signup_for_activity activities ''Gym Class''
                            ''michael@mergington.edu''))) = 200"
    by (simp add: signup_for_activity_def map_of_activities_gym)
qed

theorem signup_uniqueness_per_activity_witness:
  "''emma@mergington.edu'' \<in> set [''emma@mergington.edu'', ''sophia@mergington.edu'']
   \<and> ''emma@mergington.edu'' \<notin> set [''michael@mergington.edu'', ''daniel@mergington.edu'']
   \<and> fst (signup_for_activity activities ''Chess Club'' ''emma@mergington.edu'')
     = fst (signup_for_activity
         [(''Chess Club'',
            \<lparr>description = ''Learn strategies and compete in chess tournaments'',
             schedule = ''Fridays, 3:30 PM - 5:00 PM'',
             max_participants = 12,
             participants = [''michael@mergington.edu'', ''daniel@mergington.edu'']\<rparr>)]
         ''Chess Club'' ''emma@mergington.edu'')
   \<and> status (respond (fst (signup_for_activity activities ''Chess Club''
                            ''emma@mergington.edu''))) = 200"
proof -
  have prog: "map_of activities ''Programming Class'' =
     Some \<lparr>description = ''Learn programming fundamentals and build software projects'',
           schedule = ''Tuesdays and Thursdays, 3:30 PM - 4:30 PM'',
           max_participants = 20,
           participants = [''emma@mergington.edu'', ''sophia@mergington.edu'']\<rparr>"
    by (simp add: activities_def)
  show ?thesis
    using signup_uniqueness_per_activity
            [of activities "''Chess Club''"
                "[(''Chess Club'',
                  \<lparr>description = ''Learn strategies and compete in chess tournaments'',
                   schedule = ''Fridays, 3:30 PM - 5:00 PM'',
                   max_participants = 12,
                   participants = [''michael@mergington.edu'',
                                   ''daniel@mergington.edu'']\<rparr>)]"
                "''emma@mergington.edu''" activities
                "\<lparr>description = ''Learn strategies and compete in chess tournaments'',
                   schedule = ''Fridays, 3:30 PM - 5:00 PM'',
                   max_participants = 12,
                   participants = [''michael@mergington.edu'',
                                   ''daniel@mergington.edu'']\<rparr>"
                "''Programming Class''"
                "\<lparr>description = ''Learn programming fundamentals and build software projects'',
                  schedule = ''Tuesdays and Thursdays, 3:30 PM - 4:30 PM'',
                  max_participants = 20,
                  participants = [''emma@mergington.edu'', ''sophia@mergington.edu'']\<rparr>"]
      map_of_activities_chess prog
    by (simp add: signup_for_activity_def)
qed

text \<open>
  C10. The activity is looked up by exact string equality, with no case folding and no
  trimming: every name that differs from every key of the store gets HTTP 404 with
  detail "Activity not found"; on the seed data so do "chess club" and "Chess Club "
  (trailing blank), whatever the email.
\<close>

theorem signup_lookup_exact:
  "((\<forall>k \<in> set (map fst store). activity_name \<noteq> k) \<longrightarrow>
      respond (fst (signup_for_activity store activity_name email)) =
        \<lparr>status = 404, body = [(''detail'', ''Activity not found'')]\<rparr>)
   \<and> respond (fst (signup_for_activity activities ''chess club'' email)) =
        \<lparr>status = 404, body = [(''detail'', ''Activity not found'')]\<rparr>
   \<and> respond (fst (signup_for_activity activities ''Chess Club '' email)) =
        \<lparr>status = 404, body = [(''detail'', ''Activity not found'')]\<rparr>"
proof (intro conjI impI)
  assume "\<forall>k \<in> set (map fst store). activity_name \<noteq> k"
  then have "activity_name \<notin> fst ` set store"
    by auto
  then have "map_of store activity_name = None"
    by (simp add: map_of_eq_None_iff)
  then show "respond (fst (signup_for_activity store activity_name email)) =
        \<lparr>status = 404, body = [(''detail'', ''Activity not found'')]\<rparr>"
    by (simp add: signup_for_activity_def)
next
  show "respond (fst (signup_for_activity activities ''chess club'' email)) =
        \<lparr>status = 404, body = [(''detail'', ''Activity not found'')]\<rparr>"
    by (simp add: signup_for_activity_def activities_def)
next
  show "respond (fst (signup_for_activity activities ''Chess Club '' email)) =
        \<lparr>status = 404, body = [(''detail'', ''Activity not found'')]\<rparr>"
    by (simp add: signup_for_activity_def activities_def)
qed

theorem signup_lookup_exact_witness:
  "'' Chess Club'' \<notin> set (map fst activities)
   \<and> respond (fst (signup_for_activity activities '' Chess Club''
                      ''michael@mergington.edu'')) =
        \<lparr>status = 404, body = [(''detail'', ''Activity not found'')]\<rparr>"
proof -
  have h: "\<forall>k \<in> set (map fst activities). '' Chess Club'' \<noteq> k"
    by (simp add: activities_def)
  have n: "'' Chess Club'' \<notin> set (map fst activities)"
    by (simp add: activities_def)
  from h signup_lookup_exact
         [of activities "'' Chess Club''" "''michael@mergington.edu''"]
  have "respond (fst (signup_for_activity activities '' Chess Club''
                       ''michael@mergington.edu'')) =
        \<lparr>status = 404, body = [(''detail'', ''Activity not found'')]\<rparr>"
    by blast
  with n show ?thesis
    by (rule conjI)
qed

subsection \<open>Listing and seed data\<close>

text \<open>
  C6. \<open>get_activities\<close> leaves the store as it is and returns the whole store, keyed by
  activity name, every value with its description, schedule, \<open>max_participants\<close> and
  participants; two calls in a row return the same data.
\<close>

theorem get_activities_pure:
  "snd (get_activities store) = store
   \<and> fst (get_activities store) = store
   \<and> map fst (fst (get_activities store)) = map fst store
   \<and> map (description \<circ> snd) (fst (get_activities store)) = map (description \<circ> snd) store
   \<and> map (schedule \<circ> snd) (fst (get_activities store)) = map (schedule \<circ> snd) store
   \<and> map (max_participants \<circ> snd) (fst (get_activities store))
       = map (max_participants \<circ> snd) store
   \<and> map (participants \<circ> snd) (fst (get_activities store))
       = map (participants \<circ> snd) store
   \<and> fst (get_activities (snd (get_activities store))) = fst (get_activities store)"
  by (simp add: get_activities_def)

text \<open>
  C7. The seed store has exactly three activities, "Chess Club", "Programming Class"
  and "Gym Class": "Chess Club" with the description, schedule, capacity 12 and the two
  participants of the source; "Programming Class" with capacity 20 and participants
  emma, sophia; "Gym Class" with capacity 30 and participants john, olivia.
\<close>

theorem activities_seed:
  "map fst activities = [''Chess Club'', ''Programming Class'', ''Gym Class'']
   \<and> map_of activities ''Chess Club'' =
       Some \<lparr>description = ''Learn strategies and compete in chess tournaments'',
             schedule = ''Fridays, 3:30 PM - 5:00 PM'',
             max_participants = 12,
             participants = [''michael@mergington.edu'', ''daniel@mergington.edu'']\<rparr>
   \<and> map_option max_participants (map_of activities ''Programming Class'') = Some 20
   \<and> map_option participants (map_of activities ''Programming Class'')
       = Some [''emma@mergington.edu'', ''sophia@mergington.edu'']
   \<and> map_option max_participants (map_of activities ''Gym Class'') = Some 30
   \<and> map_option participants (map_of activities ''Gym Class'')
       = Some [''john@mergington.edu'', ''olivia@mergington.edu'']"
  by (simp add: activities_def)

end
